theory Spec2Isabelle
  imports Main "HOL-Library.Word"
begin

section \<open>The Python binding of the Tetris learning environment\<close>

text \<open>
  The development follows \<^verbatim>\<open>python-api/environment.py\<close>: the class
  \<^verbatim>\<open>Environment\<close> wraps the functions of a native library that are declared in
  the \<^verbatim>\<open>ffi.cdef\<close> block. The native library is not part of the sources, so the
  functions of \<^verbatim>\<open>lib\<close> are a parameter of the model.
\<close>

subsection \<open>The declarations of the cdef block\<close>

text \<open>
  \<^verbatim>\<open>typedef enum { Up = 0, Down = 1, Left = 2, Right = 3, B = 4, A = 5, Select = 6,
  Start = 7 } Key;\<close>
\<close>

datatype Key = Up | Down | Left | Right | B | A | Select | Start

fun Key_value :: "Key \<Rightarrow> nat" where
  "Key_value Up = 0"
| "Key_value Down = 1"
| "Key_value Left = 2"
| "Key_value Right = 3"
| "Key_value B = 4"
| "Key_value A = 5"
| "Key_value Select = 6"
| "Key_value Start = 7"

definition Key_variants :: "Key list" where
  "Key_variants = [Up, Down, Left, Right, B, A, Select, Start]"

text \<open>
  A C pointer is an address; \<^verbatim>\<open>ffi.NULL\<close> is the address 0. Both
  \<^verbatim>\<open>Environment *\<close> and \<^verbatim>\<open>const uint32_t *\<close> are addresses.
\<close>

type_synonym ptr = nat

definition NULL :: ptr where
  "NULL = 0"

type_synonym bytes = "8 word list"

text \<open>
  The eight functions of the library, over a state \<open>'b\<close> of the native side (all
  the memory the library owns). A function whose argument is declared
  \<^verbatim>\<open>const Environment *\<close> reads the state; the others may change it. The field
  \<open>peek32\<close> is C's \<^verbatim>\<open>p[i]\<close> on a \<^verbatim>\<open>const uint32_t *\<close>: the 32-bit cell at
  index \<open>i\<close> from the address \<open>p\<close>.
\<close>

record 'b lib =
  destroy_environment :: "ptr \<Rightarrow> 'b \<Rightarrow> 'b"
  get_pixels :: "ptr \<Rightarrow> 'b \<Rightarrow> ptr \<times> 'b"
  get_score :: "ptr \<Rightarrow> 'b \<Rightarrow> 32 word"
  initialize_environment :: "bytes \<Rightarrow> 'b \<Rightarrow> ptr \<times> 'b"
  is_running :: "ptr \<Rightarrow> 'b \<Rightarrow> bool"
  run_frame :: "ptr \<Rightarrow> 'b \<Rightarrow> 'b"
  set_key_state :: "ptr \<Rightarrow> Key \<Rightarrow> bool \<Rightarrow> 'b \<Rightarrow> 'b"
  start_episode :: "ptr \<Rightarrow> 'b \<Rightarrow> 32 word \<times> 'b"
  peek32 :: "'b \<Rightarrow> ptr \<Rightarrow> nat \<Rightarrow> 32 word"

subsection \<open>Calls across the foreign function interface\<close>

text \<open>
  Every call of a \<^verbatim>\<open>lib\<close> function is recorded, with its arguments and its
  result, in the order the calls are made. The record is what a backend stub that counts
  its invocations would see.
\<close>

datatype call =
    Call_initialize_environment bytes ptr
  | Call_destroy_environment ptr
  | Call_start_episode ptr "32 word"
  | Call_run_frame ptr
  | Call_is_running ptr bool
  | Call_set_key_state ptr Key bool
  | Call_get_score ptr "32 word"
  | Call_get_pixels ptr ptr

record 'b world =
  backend :: 'b
  trace :: "call list"

definition ffi_initialize_environment ::
  "'b lib \<Rightarrow> bytes \<Rightarrow> 'b world \<Rightarrow> ptr \<times> 'b world" where
  "ffi_initialize_environment l path w =
     (let (p, b') = initialize_environment l path (backend w)
      in (p, \<lparr>backend = b', trace = trace w @ [Call_initialize_environment path p]\<rparr>))"

definition ffi_destroy_environment :: "'b lib \<Rightarrow> ptr \<Rightarrow> 'b world \<Rightarrow> 'b world" where
  "ffi_destroy_environment l p w =
     \<lparr>backend = destroy_environment l p (backend w),
      trace = trace w @ [Call_destroy_environment p]\<rparr>"

definition ffi_start_episode :: "'b lib \<Rightarrow> ptr \<Rightarrow> 'b world \<Rightarrow> 32 word \<times> 'b world" where
  "ffi_start_episode l p w =
     (let (status, b') = start_episode l p (backend w)
      in (status, \<lparr>backend = b', trace = trace w @ [Call_start_episode p status]\<rparr>))"

definition ffi_run_frame :: "'b lib \<Rightarrow> ptr \<Rightarrow> 'b world \<Rightarrow> 'b world" where
  "ffi_run_frame l p w =
     \<lparr>backend = run_frame l p (backend w), trace = trace w @ [Call_run_frame p]\<rparr>"

definition ffi_is_running :: "'b lib \<Rightarrow> ptr \<Rightarrow> 'b world \<Rightarrow> bool \<times> 'b world" where
  "ffi_is_running l p w =
     (let r = is_running l p (backend w)
      in (r, \<lparr>backend = backend w, trace = trace w @ [Call_is_running p r]\<rparr>))"

definition ffi_set_key_state ::
  "'b lib \<Rightarrow> ptr \<Rightarrow> Key \<Rightarrow> bool \<Rightarrow> 'b world \<Rightarrow> 'b world" where
  "ffi_set_key_state l p key pressed w =
     \<lparr>backend = set_key_state l p key pressed (backend w),
      trace = trace w @ [Call_set_key_state p key pressed]\<rparr>"

definition ffi_get_score :: "'b lib \<Rightarrow> ptr \<Rightarrow> 'b world \<Rightarrow> 32 word \<times> 'b world" where
  "ffi_get_score l p w =
     (let s = get_score l p (backend w)
      in (s, \<lparr>backend = backend w, trace = trace w @ [Call_get_score p s]\<rparr>))"

definition ffi_get_pixels :: "'b lib \<Rightarrow> ptr \<Rightarrow> 'b world \<Rightarrow> ptr \<times> 'b world" where
  "ffi_get_pixels l p w =
     (let (q, b') = get_pixels l p (backend w)
      in (q, \<lparr>backend = b', trace = trace w @ [Call_get_pixels p q]\<rparr>))"

subsection \<open>Python values the class handles\<close>

text \<open>
  The exceptions that can leave a method: the \<^verbatim>\<open>Exception\<close> raised by
  \<^verbatim>\<open>__init__\<close> with its message, \<^verbatim>\<open>UnicodeEncodeError\<close> from
  \<^verbatim>\<open>str.encode\<close>, \<^verbatim>\<open>AttributeError\<close> when \<^verbatim>\<open>self.__obj\<close> was never
  assigned, and the \<^verbatim>\<open>TypeError\<close> of cffi when \<^verbatim>\<open>None\<close> is passed for a
  pointer argument.
\<close>

datatype error =
    Exception string
  | UnicodeEncodeError
  | AttributeError
  | TypeError
  | ValueError
  | IndexError

text \<open>
  The attribute \<^verbatim>\<open>self.__obj\<close>: not assigned yet, a cdata pointer, or
  \<^verbatim>\<open>None\<close> (after \<^verbatim>\<open>__del__\<close>).
\<close>

datatype pyobj = Unset | CData ptr | PyNone

record Environment =
  obj :: pyobj

definition WIDTH :: nat where
  "WIDTH = 160"

definition HEIGHT :: nat where
  "HEIGHT = 144"

text \<open>
  A Python \<^verbatim>\<open>str\<close> is a sequence of code points (below \<^verbatim>\<open>0x110000\<close>);
  \<^verbatim>\<open>encode(encoding="UTF-8")\<close> gives one to four bytes for each and raises on a
  surrogate (\<^verbatim>\<open>0xD800\<close> to \<^verbatim>\<open>0xDFFF\<close>).
\<close>

type_synonym str = "nat list"

definition utf8_char :: "nat \<Rightarrow> bytes option" where
  "utf8_char c =
     (if c < 0x80 then Some [of_nat c]
      else if c < 0x800 then Some [of_nat (0xC0 + c div 64), of_nat (0x80 + c mod 64)]
      else if 0xD800 \<le> c \<and> c \<le> 0xDFFF then None
      else if c < 0x10000 then
        Some [of_nat (0xE0 + c div 4096), of_nat (0x80 + c div 64 mod 64),
              of_nat (0x80 + c mod 64)]
      else
        Some [of_nat (0xF0 + c div 262144), of_nat (0x80 + c div 4096 mod 64),
              of_nat (0x80 + c div 64 mod 64), of_nat (0x80 + c mod 64)])"

fun encode_utf8 :: "str \<Rightarrow> error + bytes" where
  "encode_utf8 [] = Inr []"
| "encode_utf8 (c # cs) =
     (case utf8_char c of
        None \<Rightarrow> Inl UnicodeEncodeError
      | Some bs \<Rightarrow>
          (case encode_utf8 cs of Inl e \<Rightarrow> Inl e | Inr rest \<Rightarrow> Inr (bs @ rest)))"

definition init_failed_message :: string where
  "init_failed_message = ''failed to initialize environment (maybe the rom path was incorrect?)''"

subsection \<open>The methods of the class\<close>

text \<open>
  A method takes the object and the world and returns what it returned or raised, the
  object and the world afterwards. What a method changed before it raised stays
  changed.
\<close>

type_synonym ('a, 'b) outcome = "(error + 'a) \<times> Environment \<times> 'b world"

definition Environment_init :: "'b lib \<Rightarrow> str \<Rightarrow> Environment \<Rightarrow> 'b world \<Rightarrow> (unit, 'b) outcome" where
  "Environment_init l rom_path self w =
     (case encode_utf8 rom_path of
        Inl e \<Rightarrow> (Inl e, self, w)
      | Inr rom_path_utf8 \<Rightarrow>
          (let (p, w') = ffi_initialize_environment l rom_path_utf8 w;
               self' = self\<lparr>obj := CData p\<rparr>
           in if p = NULL then (Inl (Exception init_failed_message), self', w')
              else (Inr (), self', w')))"

definition Environment_del :: "'b lib \<Rightarrow> Environment \<Rightarrow> 'b world \<Rightarrow> (unit, 'b) outcome" where
  "Environment_del l self w =
     (case obj self of
        Unset \<Rightarrow> (Inl AttributeError, self, w)
      | PyNone \<Rightarrow> (Inl TypeError, self, w)
      | CData p \<Rightarrow>
          (let w' = (if p \<noteq> NULL then ffi_destroy_environment l p w else w)
           in (Inr (), self\<lparr>obj := PyNone\<rparr>, w')))"

definition Environment_start_episode :: "'b lib \<Rightarrow> Environment \<Rightarrow> 'b world \<Rightarrow> (unit, 'b) outcome" where
  "Environment_start_episode l self w =
     (case obj self of
        Unset \<Rightarrow> (Inl AttributeError, self, w)
      | PyNone \<Rightarrow> (Inl TypeError, self, w)
      | CData p \<Rightarrow> (let (status, w') = ffi_start_episode l p w in (Inr (), self, w')))"

definition Environment_run_frame :: "'b lib \<Rightarrow> Environment \<Rightarrow> 'b world \<Rightarrow> (unit, 'b) outcome" where
  "Environment_run_frame l self w =
     (case obj self of
        Unset \<Rightarrow> (Inl AttributeError, self, w)
      | PyNone \<Rightarrow> (Inl TypeError, self, w)
      | CData p \<Rightarrow> (Inr (), self, ffi_run_frame l p w))"

definition Environment_is_running :: "'b lib \<Rightarrow> Environment \<Rightarrow> 'b world \<Rightarrow> (bool, 'b) outcome" where
  "Environment_is_running l self w =
     (case obj self of
        Unset \<Rightarrow> (Inl AttributeError, self, w)
      | PyNone \<Rightarrow> (Inl TypeError, self, w)
      | CData p \<Rightarrow> (let (r, w') = ffi_is_running l p w in (Inr r, self, w')))"

definition Environment_set_key_state ::
  "'b lib \<Rightarrow> Key \<Rightarrow> bool \<Rightarrow> Environment \<Rightarrow> 'b world \<Rightarrow> (unit, 'b) outcome" where
  "Environment_set_key_state l key pressed self w =
     (case obj self of
        Unset \<Rightarrow> (Inl AttributeError, self, w)
      | PyNone \<Rightarrow> (Inl TypeError, self, w)
      | CData p \<Rightarrow> (Inr (), self, ffi_set_key_state l p key pressed w))"

text \<open>An \<^verbatim>\<open>int32_t\<close> result arrives as the Python integer of its signed value.\<close>

definition Environment_get_score :: "'b lib \<Rightarrow> Environment \<Rightarrow> 'b world \<Rightarrow> (int, 'b) outcome" where
  "Environment_get_score l self w =
     (case obj self of
        Unset \<Rightarrow> (Inl AttributeError, self, w)
      | PyNone \<Rightarrow> (Inl TypeError, self, w)
      | CData p \<Rightarrow> (let (s, w') = ffi_get_score l p w in (Inr (sint s), self, w')))"

subsection \<open>The pixel array\<close>

text \<open>
  \<^verbatim>\<open>ffi.buffer(cdata, size)\<close> is a buffer object over \<open>size\<close> bytes at the address
  of the pointer, without a copy. cffi exports it as a writable buffer, whatever the
  qualifiers of the pointer's type.
\<close>

record buffer =
  buf_data :: ptr
  buf_size :: nat
  buf_readonly :: bool

definition ffi_buffer :: "ptr \<Rightarrow> nat \<Rightarrow> buffer" where
  "ffi_buffer p nbytes = \<lparr>buf_data = p, buf_size = nbytes, buf_readonly = False\<rparr>"

text \<open>
  \<^verbatim>\<open>numpy.frombuffer(buffer, dtype="int32", count=n)\<close> is a one-dimensional array
  of \<open>n\<close> items of 4 bytes each over the memory of the buffer, again without a copy. It
  raises when the buffer has fewer than \<open>4 * n\<close> bytes, and the array is writable
  exactly when the buffer is.
\<close>

record ndarray =
  data :: ptr
  count :: nat
  itemsize :: nat
  writeable :: bool

definition numpy_frombuffer_int32 :: "buffer \<Rightarrow> nat \<Rightarrow> error + ndarray" where
  "numpy_frombuffer_int32 buf n =
     (if buf_size buf < 4 * n then Inl ValueError
      else Inr \<lparr>data = buf_data buf, count = n, itemsize = 4,
                writeable = \<not> buf_readonly buf\<rparr>)"

text \<open>
  The array is a view: what it holds is read from the native memory when it is indexed.
  Item \<open>i\<close> of an \<^verbatim>\<open>int32\<close> array is the 32-bit cell at index \<open>i\<close> from its
  address, read as a two's complement number.
\<close>

definition ndarray_item :: "'b lib \<Rightarrow> 'b \<Rightarrow> ndarray \<Rightarrow> nat \<Rightarrow> error + int" where
  "ndarray_item l b arr i =
     (if i < count arr then Inr (sint (peek32 l b (data arr) i)) else Inl IndexError)"

definition ndarray_tolist :: "'b lib \<Rightarrow> 'b \<Rightarrow> ndarray \<Rightarrow> int list" where
  "ndarray_tolist l b arr = map (\<lambda>i. sint (peek32 l b (data arr) i)) [0..<count arr]"

definition Environment_get_pixels :: "'b lib \<Rightarrow> Environment \<Rightarrow> 'b world \<Rightarrow> (ndarray, 'b) outcome" where
  "Environment_get_pixels l self w =
     (case obj self of
        Unset \<Rightarrow> (Inl AttributeError, self, w)
      | PyNone \<Rightarrow> (Inl TypeError, self, w)
      | CData p \<Rightarrow>
          (let (q, w') = ffi_get_pixels l p w;
               buffer = ffi_buffer q (WIDTH * HEIGHT * 4)
           in (numpy_frombuffer_int32 buffer (WIDTH * HEIGHT), self, w')))"

subsection \<open>Callers\<close>

text \<open>
  The call \<^verbatim>\<open>Environment(rom_path)\<close> makes an object with no attribute and runs
  \<^verbatim>\<open>__init__\<close> on it. An object whose \<^verbatim>\<open>__init__\<close> raised is bound to no name:
  it is reclaimed, which runs its \<^verbatim>\<open>__del__\<close>, and what \<^verbatim>\<open>__del__\<close> raises is
  ignored.
\<close>

definition Environment_new :: "'b lib \<Rightarrow> str \<Rightarrow> 'b world \<Rightarrow> (error + Environment) \<times> 'b world" where
  "Environment_new l rom_path w =
     (case Environment_init l rom_path \<lparr>obj = Unset\<rparr> w of
        (Inr u, self, w') \<Rightarrow> (Inr self, w')
      | (Inl e, self, w') \<Rightarrow>
          (case Environment_del l self w' of (r, self', w'') \<Rightarrow> (Inl e, w'')))"

text \<open>A session is live when its handle is a pointer other than \<^verbatim>\<open>ffi.NULL\<close>.\<close>

definition live :: "Environment \<Rightarrow> bool" where
  "live self = (case obj self of CData p \<Rightarrow> p \<noteq> NULL | Unset \<Rightarrow> False | PyNone \<Rightarrow> False)"

definition handle :: "Environment \<Rightarrow> ptr" where
  "handle self = (case obj self of CData p \<Rightarrow> p | Unset \<Rightarrow> NULL | PyNone \<Rightarrow> NULL)"

text \<open>\<open>n\<close> constructions in a row with the same path, with the outcome of each.\<close>

fun construct_times :: "'b lib \<Rightarrow> str \<Rightarrow> nat \<Rightarrow> 'b world \<Rightarrow> (error + Environment) list \<times> 'b world" where
  "construct_times l rom_path 0 w = ([], w)"
| "construct_times l rom_path (Suc n) w =
     (let (r, w') = Environment_new l rom_path w;
          (rs, w'') = construct_times l rom_path n w'
      in (r # rs, w''))"

text \<open>
  The handles a trace leaves allocated: those a call of
  \<^verbatim>\<open>initialize_environment\<close> returned, other than \<^verbatim>\<open>NULL\<close>, and no later call of
  \<^verbatim>\<open>destroy_environment\<close> released.
\<close>

fun outstanding :: "call list \<Rightarrow> ptr list \<Rightarrow> ptr list" where
  "outstanding [] hs = hs"
| "outstanding (Call_initialize_environment path p # cs) hs =
     outstanding cs (if p = NULL then hs else hs @ [p])"
| "outstanding (Call_destroy_environment p # cs) hs = outstanding cs (remove1 p hs)"
| "outstanding (c # cs) hs = outstanding cs hs"

fun is_destroy :: "call \<Rightarrow> bool" where
  "is_destroy (Call_destroy_environment p) = True"
| "is_destroy c = False"

text \<open>\<open>n\<close> calls of \<^verbatim>\<open>run_frame\<close> in a row; the first exception ends the run.\<close>

fun run_frames :: "'b lib \<Rightarrow> nat \<Rightarrow> Environment \<Rightarrow> 'b world \<Rightarrow> (unit, 'b) outcome" where
  "run_frames l 0 self w = (Inr (), self, w)"
| "run_frames l (Suc n) self w =
     (case Environment_run_frame l self w of
        (Inl e, self', w') \<Rightarrow> (Inl e, self', w')
      | (Inr u, self', w') \<Rightarrow> run_frames l n self' w')"

text \<open>
  A caller's script: a list of method calls on one session, and what the caller gets
  back from each. The pixels are read out of the array right after the call that
  returned it.
\<close>

datatype request =
    M_start_episode
  | M_run_frame
  | M_is_running
  | M_set_key_state Key bool
  | M_get_score
  | M_get_pixels

datatype observation =
    Returned_None
  | Returned_bool bool
  | Returned_int int
  | Returned_pixels "int list"
  | Raised error

fun is_start :: "request \<Rightarrow> bool" where
  "is_start M_start_episode = True"
| "is_start m = False"

fun perform :: "'b lib \<Rightarrow> request \<Rightarrow> Environment \<Rightarrow> 'b world \<Rightarrow> observation \<times> Environment \<times> 'b world" where
  "perform l M_start_episode self w =
     (case Environment_start_episode l self w of
        (Inl e, self', w') \<Rightarrow> (Raised e, self', w')
      | (Inr u, self', w') \<Rightarrow> (Returned_None, self', w'))"
| "perform l M_run_frame self w =
     (case Environment_run_frame l self w of
        (Inl e, self', w') \<Rightarrow> (Raised e, self', w')
      | (Inr u, self', w') \<Rightarrow> (Returned_None, self', w'))"
| "perform l M_is_running self w =
     (case Environment_is_running l self w of
        (Inl e, self', w') \<Rightarrow> (Raised e, self', w')
      | (Inr r, self', w') \<Rightarrow> (Returned_bool r, self', w'))"
| "perform l (M_set_key_state key pressed) self w =
     (case Environment_set_key_state l key pressed self w of
        (Inl e, self', w') \<Rightarrow> (Raised e, self', w')
      | (Inr u, self', w') \<Rightarrow> (Returned_None, self', w'))"
| "perform l M_get_score self w =
     (case Environment_get_score l self w of
        (Inl e, self', w') \<Rightarrow> (Raised e, self', w')
      | (Inr s, self', w') \<Rightarrow> (Returned_int s, self', w'))"
| "perform l M_get_pixels self w =
     (case Environment_get_pixels l self w of
        (Inl e, self', w') \<Rightarrow> (Raised e, self', w')
      | (Inr arr, self', w') \<Rightarrow> (Returned_pixels (ndarray_tolist l (backend w') arr), self', w'))"

fun perform_all :: "'b lib \<Rightarrow> request list \<Rightarrow> Environment \<Rightarrow> 'b world \<Rightarrow> observation list \<times> Environment \<times> 'b world" where
  "perform_all l [] self w = ([], self, w)"
| "perform_all l (m # ms) self w =
     (let (x, self', w') = perform l m self w;
          (xs, self'', w'') = perform_all l ms self' w'
      in (x # xs, self'', w''))"

subsection \<open>The emulation backend\<close>

text \<open>
  Modelled from the spec: the emulation of the hardware, which the spec treats as an
  external collaborator and which is not in the sources. A ROM path either loads to a
  machine state or does not; a machine is reset, advanced by one frame under the buttons
  held, and shows whether its program has ended, a score and its pixels.
\<close>

record 'm emulator =
  load_rom :: "bytes \<Rightarrow> 'm option"
  reset :: "'m \<Rightarrow> 'm"
  advance :: "(Key \<Rightarrow> bool) \<Rightarrow> 'm \<Rightarrow> 'm"
  game_over :: "'m \<Rightarrow> bool"
  score_of :: "'m \<Rightarrow> 32 word"
  pixel_of :: "'m \<Rightarrow> nat \<Rightarrow> 32 word"

text \<open>
  Modelled from the spec: one backend instance, which the library behind the handle
  keeps and which is not in the sources. It holds the machine, the input latch (a
  pressed state for each of the 8 buttons, all released at first, kept across frames),
  the running flag (false until an episode starts) and the number of frames advanced.
\<close>

record 'm inst =
  machine :: 'm
  latch :: "Key \<Rightarrow> bool"
  running :: bool
  frames :: nat

text \<open>
  Modelled from the spec: the state of the backend library, which is not in the sources:
  the instances that are allocated, by handle, and how many were ever allocated (the
  next handle is one more, so a handle is never \<^verbatim>\<open>NULL\<close> and never reused).
\<close>

record 'm spec_backend =
  instances :: "ptr \<rightharpoonup> 'm inst"
  allocated :: nat

text \<open>
  Modelled from the spec: the backend library before any instance is created (the
  library is not in the sources).
\<close>

definition spec_empty :: "'m spec_backend" where
  "spec_empty = \<lparr>instances = Map.empty, allocated = 0\<rparr>"

text \<open>
  Modelled from the spec: an operation of the backend library (not in the sources) on
  the instance behind a handle changes that instance and no other; on a handle with no
  instance the model changes nothing.
\<close>

definition spec_update :: "ptr \<Rightarrow> ('m inst \<Rightarrow> 'm inst) \<Rightarrow> 'm spec_backend \<Rightarrow> 'm spec_backend" where
  "spec_update h f b =
     (case instances b h of
        None \<Rightarrow> b
      | Some i \<Rightarrow> b\<lparr>instances := (instances b)(h \<mapsto> f i)\<rparr>)"

text \<open>
  Modelled from the spec: the operations of the backend of section 6 of the spec (the
  library that implements them is not in the sources). Create returns a new handle, or
  null and no instance when the ROM does not load; destroy releases the instance; start
  resets the machine, sets the running flag and returns a status code; a frame advance
  reads the latch, advances the machine by one frame and clears the running flag when
  the program has ended; set button state overwrites the latch at one button; the
  queries read the running flag, the score and the pixel buffer of the instance.
\<close>

definition spec_lib :: "'m emulator \<Rightarrow> 'm spec_backend lib" where
  "spec_lib emu =
     \<lparr>destroy_environment = (\<lambda>h b. b\<lparr>instances := (instances b)(h := None)\<rparr>),
      get_pixels = (\<lambda>h b. (h, b)),
      get_score = (\<lambda>h b. case instances b h of None \<Rightarrow> 0 | Some i \<Rightarrow> score_of emu (machine i)),
      initialize_environment = (\<lambda>path b.
        case load_rom emu path of
          None \<Rightarrow> (NULL, b)
        | Some m \<Rightarrow>
            (let h = Suc (allocated b)
             in (h, \<lparr>instances = (instances b)(h \<mapsto>
                       \<lparr>machine = m, latch = (\<lambda>k. False), running = False, frames = 0\<rparr>),
                     allocated = h\<rparr>))),
      is_running = (\<lambda>h b. case instances b h of None \<Rightarrow> False | Some i \<Rightarrow> running i),
      run_frame = (\<lambda>h. spec_update h (\<lambda>i.
        let m' = advance emu (latch i) (machine i)
        in i\<lparr>machine := m', running := running i \<and> \<not> game_over emu m',
              frames := Suc (frames i)\<rparr>)),
      set_key_state = (\<lambda>h key pressed. spec_update h (\<lambda>i. i\<lparr>latch := (latch i)(key := pressed)\<rparr>)),
      start_episode = (\<lambda>h b. (0, spec_update h (\<lambda>i. i\<lparr>machine := reset emu (machine i), running := True\<rparr>) b)),
      peek32 = (\<lambda>b p k. case instances b p of None \<Rightarrow> 0 | Some i \<Rightarrow> pixel_of emu (machine i) k)\<rparr>"

text \<open>
  Modelled from the spec: the pixel frame as the grid of \<open>WIDTH\<close> columns and
  \<open>HEIGHT\<close> rows that the backend (not in the sources) lays out in its buffer row by
  row with no padding: the cell in column \<open>x\<close> of row \<open>y\<close> is cell \<open>y * WIDTH + x\<close> of
  the buffer.
\<close>

definition pixel_at :: "'m emulator \<Rightarrow> 'm \<Rightarrow> nat \<Rightarrow> nat \<Rightarrow> 32 word" where
  "pixel_at emu m x y = pixel_of emu m (y * WIDTH + x)"

text \<open>
  A small emulator to run the definitions on: the machine is a frame number, the empty
  path does not load, the program ends at frame 3, the score is the frame number and
  every pixel is opaque (alpha \<^verbatim>\<open>0xFF\<close>) with the frame number as its colour.
\<close>

definition toy :: "nat emulator" where
  "toy =
     \<lparr>load_rom = (\<lambda>path. if path = [] then None else Some 0),
      reset = (\<lambda>m. 0),
      advance = (\<lambda>keys m. if keys Start then m + 2 else m + 1),
      game_over = (\<lambda>m. 3 \<le> m),
      score_of = (\<lambda>m. of_nat m),
      pixel_of = (\<lambda>m k. 0xFF000000 + of_nat m)\<rparr>"

definition toy_world :: "nat spec_backend world" where
  "toy_world = \<lparr>backend = spec_empty, trace = []\<rparr>"

definition toy_path :: str where
  "toy_path = [116, 46, 103, 98]"

definition toy_session :: Environment where
  "toy_session = \<lparr>obj = CData 1\<rparr>"

definition toy_live_world :: "nat spec_backend world" where
  "toy_live_world = snd (Environment_new (spec_lib toy) toy_path toy_world)"

definition toy_set_once :: "nat spec_backend world" where
  "toy_set_once =
     snd (snd (Environment_set_key_state (spec_lib toy) Start True toy_session toy_live_world))"

definition toy_set_twice :: "nat spec_backend world" where
  "toy_set_twice =
     snd (snd (Environment_set_key_state (spec_lib toy) Start True toy_session toy_set_once))"

definition toy_script :: "request list" where
  "toy_script = [M_start_episode, M_run_frame, M_get_score, M_is_running]"

definition toy_idle_script :: "request list" where
  "toy_idle_script =
     [M_is_running, M_run_frame, M_set_key_state Start True, M_get_score, M_is_running]"

section \<open>Properties\<close>

subsection \<open>Auxiliary facts\<close>

lemma live_obj: "live self \<Longrightarrow> obj self = CData (handle self)"
  by (cases "obj self") (simp_all add: live_def handle_def)

lemma live_handle: "live self \<Longrightarrow> handle self \<noteq> NULL"
  by (cases "obj self") (simp_all add: live_def handle_def)

lemma toy_session_live: "live toy_session"
  by (simp add: toy_session_def live_def NULL_def)

lemma toy_session_handle: "handle toy_session = 1"
  by (simp add: toy_session_def handle_def)

lemma encode_toy_path: "encode_utf8 toy_path = Inr [116, 46, 103, 98]"
  by (simp add: toy_path_def utf8_char_def)

lemma toy_live_world_eq:
  "toy_live_world =
     \<lparr>backend = \<lparr>instances = [1 \<mapsto> \<lparr>machine = 0, latch = (\<lambda>k. False), running = False, frames = 0\<rparr>],
                  allocated = 1\<rparr>,
      trace = [Call_initialize_environment [116, 46, 103, 98] 1]\<rparr>"
  by (simp add: toy_live_world_def Environment_new_def Environment_init_def encode_toy_path
      ffi_initialize_environment_def spec_lib_def toy_def toy_world_def spec_empty_def NULL_def)

lemma toy_instance:
  "instances (backend toy_live_world) 1 =
     Some \<lparr>machine = 0, latch = (\<lambda>k. False), running = False, frames = 0\<rparr>"
  by (simp add: toy_live_world_eq)

subsection \<open>The button enumeration\<close>

text \<open>
  C8: the enumeration of the buttons has exactly the 8 variants Up, Down, Left, Right, B,
  A, Select, Start, in that order, with the numeric values 0 to 7; there is no other
  variant.
\<close>

theorem Key_enumeration:
  "Key_variants = [Up, Down, Left, Right, B, A, Select, Start] \<and>
   map Key_value Key_variants = [0, 1, 2, 3, 4, 5, 6, 7] \<and>
   length Key_variants = 8 \<and> distinct Key_variants \<and> set Key_variants = UNIV"
proof -
  have "k \<in> set Key_variants" for k
    by (cases k) (simp_all add: Key_variants_def)
  then have "set Key_variants = UNIV"
    by blast
  then show ?thesis
    by (simp add: Key_variants_def)
qed

subsection \<open>The operations on a live session\<close>

lemma run_frame_live:
  "live self \<Longrightarrow>
   Environment_run_frame l self w =
     (Inr (), self, \<lparr>backend = run_frame l (handle self) (backend w),
                     trace = trace w @ [Call_run_frame (handle self)]\<rparr>)"
  by (simp add: Environment_run_frame_def live_obj ffi_run_frame_def)

lemma run_frames_live:
  "live self \<Longrightarrow>
   run_frames l n self w =
     (Inr (), self, \<lparr>backend = (run_frame l (handle self) ^^ n) (backend w),
                     trace = trace w @ replicate n (Call_run_frame (handle self))\<rparr>)"
proof (induction n arbitrary: w)
  case 0
  then show ?case by simp
next
  case (Suc n)
  then show ?case
    by (simp add: run_frame_live funpow_swap1 replicate_app_Cons_same)
qed

lemma get_score_live:
  "live self \<Longrightarrow>
   Environment_get_score l self w =
     (Inr (sint (get_score l (handle self) (backend w))), self,
      \<lparr>backend = backend w,
       trace = trace w @ [Call_get_score (handle self) (get_score l (handle self) (backend w))]\<rparr>)"
  by (simp add: Environment_get_score_def live_obj ffi_get_score_def Let_def)

lemma start_episode_live:
  "live self \<Longrightarrow>
   Environment_start_episode l self w =
     (Inr (), self,
      \<lparr>backend = snd (start_episode l (handle self) (backend w)),
       trace = trace w @ [Call_start_episode (handle self)
                            (fst (start_episode l (handle self) (backend w)))]\<rparr>)"
  by (simp add: Environment_start_episode_def live_obj ffi_start_episode_def split_beta)

lemma set_key_state_live:
  "live self \<Longrightarrow>
   Environment_set_key_state l key pressed self w =
     (Inr (), self,
      \<lparr>backend = set_key_state l (handle self) key pressed (backend w),
       trace = trace w @ [Call_set_key_state (handle self) key pressed]\<rparr>)"
  by (simp add: Environment_set_key_state_def live_obj ffi_set_key_state_def)

lemma is_running_live:
  "live self \<Longrightarrow>
   Environment_is_running l self w =
     (Inr (is_running l (handle self) (backend w)), self,
      \<lparr>backend = backend w,
       trace = trace w @ [Call_is_running (handle self) (is_running l (handle self) (backend w))]\<rparr>)"
  by (simp add: Environment_is_running_def live_obj ffi_is_running_def Let_def)

lemma get_pixels_live:
  "live self \<Longrightarrow>
   Environment_get_pixels l self w =
     (Inr \<lparr>data = fst (get_pixels l (handle self) (backend w)), count = 23040, itemsize = 4,
           writeable = True\<rparr>, self,
      \<lparr>backend = snd (get_pixels l (handle self) (backend w)),
       trace = trace w @ [Call_get_pixels (handle self)
                            (fst (get_pixels l (handle self) (backend w)))]\<rparr>)"
  by (simp add: Environment_get_pixels_def live_obj ffi_get_pixels_def split_beta
      ffi_buffer_def numpy_frombuffer_int32_def WIDTH_def HEIGHT_def)

subsection \<open>Frame advance\<close>

text \<open>
  C3: on a live session every call of \<^verbatim>\<open>run_frame\<close> makes exactly one call of the
  backend's \<^verbatim>\<open>run_frame\<close> and raises nothing, so \<open>n\<close> calls in a row make exactly
  \<open>n\<close> frame advances of the backend, one after the other, and no other call.
\<close>

theorem run_frame_once_per_step:
  assumes "live self"
  shows "Environment_run_frame l self w =
           (Inr (), self, \<lparr>backend = run_frame l (handle self) (backend w),
                           trace = trace w @ [Call_run_frame (handle self)]\<rparr>) \<and>
         run_frames l n self w =
           (Inr (), self, \<lparr>backend = (run_frame l (handle self) ^^ n) (backend w),
                           trace = trace w @ replicate n (Call_run_frame (handle self))\<rparr>)"
  using assms by (simp add: run_frame_live run_frames_live)

lemma toy_frames:
  "map_option frames (instances ((run_frame (spec_lib toy) 1 ^^ 5) (backend toy_live_world)) 1) = Some 5"
  by (simp add: toy_live_world_eq spec_lib_def spec_update_def toy_def eval_nat_numeral)

theorem run_frame_once_per_step_witness:
  "live toy_session \<and>
   run_frames (spec_lib toy) 5 toy_session toy_live_world =
     (Inr (), toy_session,
      \<lparr>backend = (run_frame (spec_lib toy) 1 ^^ 5) (backend toy_live_world),
       trace = trace toy_live_world @ replicate 5 (Call_run_frame 1)\<rparr>) \<and>
   map_option frames
     (instances (backend (snd (snd (run_frames (spec_lib toy) 5 toy_session toy_live_world)))) 1) = Some 5"
proof -
  have r: "run_frames (spec_lib toy) 5 toy_session toy_live_world =
     (Inr (), toy_session,
      \<lparr>backend = (run_frame (spec_lib toy) 1 ^^ 5) (backend toy_live_world),
       trace = trace toy_live_world @ replicate 5 (Call_run_frame 1)\<rparr>)"
    using run_frame_once_per_step [OF toy_session_live, of "spec_lib toy" toy_live_world 5]
    by (simp only: toy_session_handle)
  have f: "map_option frames
     (instances (backend (snd (snd (run_frames (spec_lib toy) 5 toy_session toy_live_world)))) 1) = Some 5"
    by (simp only: r snd_conv world.select_convs toy_frames)
  from toy_session_live r f show ?thesis
    by (intro conjI)
qed

subsection \<open>The score query\<close>

lemma toy_score_0: "get_score (spec_lib toy) 1 (backend toy_live_world) = 0"
  by (simp add: toy_live_world_eq spec_lib_def toy_def)

lemma toy_score_1:
  "get_score (spec_lib toy) 1 (run_frame (spec_lib toy) 1 (backend toy_live_world)) = 1"
  by (simp add: toy_live_world_eq spec_lib_def spec_update_def toy_def)

text \<open>
  C6: on a live session \<^verbatim>\<open>get_score\<close> returns the signed value of the 32-bit
  integer that the backend's \<^verbatim>\<open>get_score\<close> gives for the state at the time of the
  call, a number from \<open>-2^31\<close> to \<open>2^31 - 1\<close>. Every call makes one call of the backend
  (nothing is cached in the session: a call after a frame advance returns the score of
  the advanced state), and it changes neither the session nor the state of the backend.
\<close>

theorem get_score_reads_backend:
  assumes "live self"
  shows "Environment_get_score l self w =
           (Inr (sint (get_score l (handle self) (backend w))), self,
            \<lparr>backend = backend w,
             trace = trace w @ [Call_get_score (handle self)
                                  (get_score l (handle self) (backend w))]\<rparr>) \<and>
         - (2 ^ 31) \<le> sint (get_score l (handle self) (backend w)) \<and>
         sint (get_score l (handle self) (backend w)) < 2 ^ 31 \<and>
         (let (r1, s1, w1) = Environment_get_score l self w;
              (u, s2, w2) = Environment_run_frame l s1 w1;
              (r3, s3, w3) = Environment_get_score l s2 w2
          in r1 = Inr (sint (get_score l (handle self) (backend w))) \<and>
             r3 = Inr (sint (get_score l (handle self)
                               (run_frame l (handle self) (backend w)))) \<and>
             s3 = self \<and>
             trace w3 = trace w @
               [Call_get_score (handle self) (get_score l (handle self) (backend w)),
                Call_run_frame (handle self),
                Call_get_score (handle self)
                  (get_score l (handle self) (run_frame l (handle self) (backend w)))])"
proof -
  have "- (2 ^ 31) \<le> sint (get_score l (handle self) (backend w))"
    using sint_ge [of "get_score l (handle self) (backend w)"] by simp
  moreover have "sint (get_score l (handle self) (backend w)) < 2 ^ 31"
    using sint_lt [of "get_score l (handle self) (backend w)"] by simp
  ultimately show ?thesis
    using assms by (simp add: get_score_live run_frame_live)
qed

theorem get_score_reads_backend_witness:
  "live toy_session \<and>
   Environment_get_score (spec_lib toy) toy_session toy_live_world =
     (Inr 0, toy_session,
      \<lparr>backend = backend toy_live_world,
       trace = trace toy_live_world @ [Call_get_score 1 0]\<rparr>) \<and>
   fst (Environment_get_score (spec_lib toy) toy_session
          \<lparr>backend = run_frame (spec_lib toy) 1 (backend toy_live_world), trace = []\<rparr>) = Inr 1"
proof -
  have a: "Environment_get_score (spec_lib toy) toy_session toy_live_world =
     (Inr 0, toy_session,
      \<lparr>backend = backend toy_live_world,
       trace = trace toy_live_world @ [Call_get_score 1 0]\<rparr>)"
    using get_score_reads_backend [OF toy_session_live, of "spec_lib toy" toy_live_world]
    by (simp only: toy_session_handle toy_score_0 sint_0)
  have b: "fst (Environment_get_score (spec_lib toy) toy_session
          \<lparr>backend = run_frame (spec_lib toy) 1 (backend toy_live_world), trace = []\<rparr>) = Inr 1"
    using get_score_reads_backend [OF toy_session_live, of "spec_lib toy"
        "\<lparr>backend = run_frame (spec_lib toy) 1 (backend toy_live_world), trace = []\<rparr>"]
    by (simp only: toy_session_handle world.select_convs toy_score_1 fst_conv) simp
  from toy_session_live a b show ?thesis
    by (intro conjI)
qed

subsection \<open>Episode start\<close>

text \<open>
  C9: on a live session \<^verbatim>\<open>start_episode\<close> calls the backend's
  \<^verbatim>\<open>start_episode\<close> once and returns \<^verbatim>\<open>None\<close>, whatever status code the backend
  returned: with any other status code in place of the backend's, the caller gets the same
  result, the same session and the same backend state.
\<close>

theorem start_episode_discards_status:
  assumes "live self"
  shows "Environment_start_episode l self w =
           (Inr (), self,
            \<lparr>backend = snd (start_episode l (handle self) (backend w)),
             trace = trace w @ [Call_start_episode (handle self)
                                  (fst (start_episode l (handle self) (backend w)))]\<rparr>) \<and>
         fst (Environment_start_episode
                (l\<lparr>start_episode := \<lambda>p b. (status, snd (start_episode l p b))\<rparr>) self w) =
           fst (Environment_start_episode l self w) \<and>
         fst (snd (Environment_start_episode
                (l\<lparr>start_episode := \<lambda>p b. (status, snd (start_episode l p b))\<rparr>) self w)) =
           fst (snd (Environment_start_episode l self w)) \<and>
         backend (snd (snd (Environment_start_episode
                (l\<lparr>start_episode := \<lambda>p b. (status, snd (start_episode l p b))\<rparr>) self w))) =
           backend (snd (snd (Environment_start_episode l self w)))"
  using assms by (simp add: start_episode_live)

theorem start_episode_discards_status_witness:
  "live toy_session \<and>
   fst (Environment_start_episode (spec_lib toy) toy_session toy_live_world) = Inr () \<and>
   fst (Environment_start_episode
          ((spec_lib toy)\<lparr>start_episode := \<lambda>p b. (- 1, snd (start_episode (spec_lib toy) p b))\<rparr>)
          toy_session toy_live_world) = Inr () \<and>
   trace (snd (snd (Environment_start_episode
          ((spec_lib toy)\<lparr>start_episode := \<lambda>p b. (- 1, snd (start_episode (spec_lib toy) p b))\<rparr>)
          toy_session toy_live_world))) =
     trace toy_live_world @ [Call_start_episode 1 (- 1)]"
proof -
  note t = start_episode_discards_status [OF toy_session_live, of "spec_lib toy" toy_live_world "- 1"]
  note u = start_episode_discards_status [OF toy_session_live,
      of "(spec_lib toy)\<lparr>start_episode := \<lambda>p b. (- 1, snd (start_episode (spec_lib toy) p b))\<rparr>"
         toy_live_world 0]
  from t have a: "fst (Environment_start_episode (spec_lib toy) toy_session toy_live_world) = Inr ()"
    by simp
  from t a have b: "fst (Environment_start_episode
          ((spec_lib toy)\<lparr>start_episode := \<lambda>p b. (- 1, snd (start_episode (spec_lib toy) p b))\<rparr>)
          toy_session toy_live_world) = Inr ()"
    by simp
  from u have c: "trace (snd (snd (Environment_start_episode
          ((spec_lib toy)\<lparr>start_episode := \<lambda>p b. (- 1, snd (start_episode (spec_lib toy) p b))\<rparr>)
          toy_session toy_live_world))) =
     trace toy_live_world @ [Call_start_episode 1 (- 1)]"
    by (simp add: toy_session_handle)
  from toy_session_live a b c show ?thesis
    by (intro conjI)
qed

subsection \<open>The pixel observation\<close>

lemma sint32_uint:
  "sint (v :: 32 word) = (if 2 ^ 31 \<le> uint v then uint v - 2 ^ 32 else uint v)"
proof -
  have r: "0 \<le> uint v" "uint v < 4294967296"
    using uint_lt2p [of v] by simp_all
  have s: "sint v = (uint v + 2147483648) mod 4294967296 - 2147483648"
    by (simp add: sint_uint signed_take_bit_eq_take_bit_shift take_bit_eq_mod)
  show ?thesis
  proof (cases "2147483648 \<le> uint v")
    case True
    have "(uint v + 2147483648) mod 4294967296 = (uint v + 2147483648 - 4294967296) mod 4294967296"
      by (simp only: minus_mod_self2)
    also have "\<dots> = uint v + 2147483648 - 4294967296"
      using True r by (intro mod_pos_pos_trivial) simp_all
    finally show ?thesis
      using True s by simp
  next
    case False
    have "(uint v + 2147483648) mod 4294967296 = uint v + 2147483648"
      using False r by (intro mod_pos_pos_trivial) simp_all
    then show ?thesis
      using False s by simp
  qed
qed

lemma le_unat_iff: "(n \<le> unat (v :: 32 word)) = (int n \<le> uint v)"
proof -
  have "0 \<le> uint v"
    by simp
  then have "(n \<le> nat (uint v)) = (int n \<le> uint v)"
    by (rule le_nat_iff)
  then show ?thesis
    by (simp only: unat_eq_nat_uint)
qed

lemma sint32_unat:
  "sint (v :: 32 word) = (if 2 ^ 31 \<le> unat v then int (unat v) - 2 ^ 32 else int (unat v))"
proof -
  have "int (2 ^ 31) = 2 ^ 31"
    by (simp only: of_nat_power of_nat_numeral)
  then have "(2 ^ 31 \<le> unat v) = (2 ^ 31 \<le> uint v)"
    by (simp only: le_unat_iff)
  moreover have "int (unat v) = uint v"
    by simp
  ultimately show ?thesis
    by (simp only: sint32_uint)
qed


lemma toy_pixels_ptr: "get_pixels (spec_lib toy) 1 (backend toy_live_world) = (1, backend toy_live_world)"
  by (simp add: spec_lib_def)

lemma toy_pixel: "peek32 (spec_lib toy) (backend toy_live_world) 1 i = 0xFF000000"
  by (simp add: toy_live_world_eq spec_lib_def toy_def)

lemma spec_run_frame_inst:
  "instances b h = Some j \<Longrightarrow>
   instances (run_frame (spec_lib emu) h b) h =
     Some (j\<lparr>machine := advance emu (latch j) (machine j),
              running := running j \<and> \<not> game_over emu (advance emu (latch j) (machine j)),
              frames := Suc (frames j)\<rparr>)"
  by (simp add: spec_lib_def spec_update_def Let_def)

lemma spec_run_frames_inst:
  "instances b h = Some j \<Longrightarrow>
   \<exists>j'. instances ((run_frame (spec_lib emu) h ^^ n) b) h = Some j' \<and>
        machine j' = (advance emu (latch j) ^^ n) (machine j) \<and>
        latch j' = latch j \<and> frames j' = frames j + n"
proof (induction n)
  case 0
  then show ?case by simp
next
  case (Suc n)
  then obtain j' where j': "instances ((run_frame (spec_lib emu) h ^^ n) b) h = Some j'"
    and m: "machine j' = (advance emu (latch j) ^^ n) (machine j)"
    and l: "latch j' = latch j" and f: "frames j' = frames j + n"
    by blast
  have "instances ((run_frame (spec_lib emu) h ^^ Suc n) b) h =
      Some (j'\<lparr>machine := advance emu (latch j') (machine j'),
                running := running j' \<and> \<not> game_over emu (advance emu (latch j') (machine j')),
                frames := Suc (frames j')\<rparr>)"
    using spec_run_frame_inst [OF j', of emu] by simp
  with m l f show ?case
    by simp
qed

lemma spec_peek32_inst:
  "instances b h = Some j \<Longrightarrow> peek32 (spec_lib emu) b h k = pixel_of emu (machine j) k"
  by (simp add: spec_lib_def)

lemma spec_get_pixels_ptr: "get_pixels (spec_lib emu) h b = (h, b)"
  by (simp add: spec_lib_def)

lemma grid_index:
  "x < WIDTH \<Longrightarrow> y < HEIGHT \<Longrightarrow> y * WIDTH + x < WIDTH * HEIGHT"
proof -
  assume x: "x < WIDTH" and y: "y < HEIGHT"
  from y have "Suc y \<le> HEIGHT"
    by simp
  then have "Suc y * WIDTH \<le> HEIGHT * WIDTH"
    by (rule mult_le_mono1)
  with x show ?thesis
    by (simp add: mult.commute)
qed

lemma grid_cell:
  "k < WIDTH * HEIGHT \<Longrightarrow>
   k mod WIDTH < WIDTH \<and> k div WIDTH < HEIGHT \<and> (k div WIDTH) * WIDTH + k mod WIDTH = k"
  by (simp add: WIDTH_def HEIGHT_def less_mult_imp_div_less)


lemma spec_view_after_frames:
  assumes "live self" and "instances (backend v) (handle self) = Some j"
  shows "let arr = \<lparr>data = handle self, count = 23040, itemsize = 4, writeable = True\<rparr>;
             vn = snd (snd (run_frames (spec_lib emu) n self v));
             m = (advance emu (latch j) ^^ n) (machine j);
             b' = backend (snd (snd (Environment_get_pixels (spec_lib emu) self vn)))
         in fst (Environment_get_pixels (spec_lib emu) self vn) = Inr arr \<and>
            b' = backend vn \<and>
            (\<forall>k. k < WIDTH * HEIGHT \<longrightarrow>
               ndarray_item (spec_lib emu) b' arr k = Inr (sint (pixel_of emu m k)) \<and>
               k mod WIDTH < WIDTH \<and> k div WIDTH < HEIGHT \<and>
               pixel_of emu m k = pixel_at emu m (k mod WIDTH) (k div WIDTH)) \<and>
            (\<forall>x y. x < WIDTH \<and> y < HEIGHT \<longrightarrow>
               y * WIDTH + x < WIDTH * HEIGHT \<and>
               ndarray_item (spec_lib emu) b' arr (y * WIDTH + x) =
                 Inr (sint (pixel_at emu m x y)))"
proof -
  define arr where "arr = \<lparr>data = handle self, count = 23040, itemsize = 4, writeable = True\<rparr>"
  define vn where "vn = snd (snd (run_frames (spec_lib emu) n self v))"
  define m where "m = (advance emu (latch j) ^^ n) (machine j)"
  define b' where "b' = backend (snd (snd (Environment_get_pixels (spec_lib emu) self vn)))"
  have bn: "backend vn = (run_frame (spec_lib emu) (handle self) ^^ n) (backend v)"
    by (simp add: vn_def run_frames_live [OF assms(1)])
  obtain j' where j': "instances (backend vn) (handle self) = Some j'" and mj: "machine j' = m"
    using spec_run_frames_inst [OF assms(2), where emu = emu and n = n] by (auto simp add: bn m_def)
  have g: "fst (Environment_get_pixels (spec_lib emu) self vn) = Inr arr"
    by (simp add: get_pixels_live [OF assms(1)] spec_get_pixels_ptr arr_def)
  have bb: "b' = backend vn"
    by (simp add: b'_def get_pixels_live [OF assms(1)] spec_get_pixels_ptr)
  have c: "count arr = WIDTH * HEIGHT"
    by (simp add: arr_def WIDTH_def HEIGHT_def)
  have item: "ndarray_item (spec_lib emu) b' arr k = Inr (sint (pixel_of emu m k))"
    if "k < WIDTH * HEIGHT" for k
  proof -
    from that have "k < count arr"
      by (simp only: c)
    moreover have "data arr = handle self"
      by (simp add: arr_def)
    ultimately show ?thesis
      by (simp add: ndarray_item_def bb spec_peek32_inst [OF j'] mj)
  qed
  have cell: "k mod WIDTH < WIDTH \<and> k div WIDTH < HEIGHT \<and>
      pixel_of emu m k = pixel_at emu m (k mod WIDTH) (k div WIDTH)"
    if "k < WIDTH * HEIGHT" for k
    using grid_cell [OF that] by (simp add: pixel_at_def)
  have grid: "y * WIDTH + x < WIDTH * HEIGHT \<and>
      ndarray_item (spec_lib emu) b' arr (y * WIDTH + x) = Inr (sint (pixel_at emu m x y))"
    if "x < WIDTH \<and> y < HEIGHT" for x y
    using that grid_index [of x y] item [of "y * WIDTH + x"] by (simp add: pixel_at_def)
  from g bb item cell grid show ?thesis
    unfolding Let_def arr_def [symmetric] vn_def [symmetric] m_def [symmetric] b'_def [symmetric]
    by blast
qed

lemma toy_frame_2: "sint (pixel_at toy ((advance toy (\<lambda>k. False) ^^ 2) 0) 3 1) = - 16777214"
  by (simp add: pixel_at_def toy_def eval_nat_numeral)

text \<open>
  C2, as amended: on a live session \<^verbatim>\<open>get_pixels\<close> returns a writable (not
  read-only) view of exactly \<open>WIDTH * HEIGHT = 160 * 144 = 23040\<close> packed 32-bit pixel
  values (4 bytes per pixel, row-major) representing the most recently rendered frame,
  and the constants \<^verbatim>\<open>WIDTH\<close> and \<^verbatim>\<open>HEIGHT\<close> are 160 and 144.

  For every backend: the call makes one call of the backend's \<^verbatim>\<open>get_pixels\<close> and
  returns, without a copy, a writable array of 23040 items of 4 bytes (92160 bytes) over
  the buffer at the pointer it got; item \<open>i\<close> is the 32-bit cell \<open>i\<close> of that buffer at
  the time it is read, and an index from 23040 on is out of range. On the backend of the
  spec: after \<open>n\<close> frame advances on the session (\<open>n = 0\<close>: none yet), the array holds
  the frame of the machine as the latest advance left it, and the pixel in column \<open>x\<close> of
  row \<open>y\<close> of that frame is item \<open>y * WIDTH + x\<close>, every item being one such pixel.
\<close>

theorem get_pixels_view:
  assumes "live self"
  shows "(let q = fst (get_pixels l (handle self) (backend w));
              arr = \<lparr>data = q, count = 23040, itemsize = 4, writeable = True\<rparr>
          in Environment_get_pixels l self w =
               (Inr arr, self,
                \<lparr>backend = snd (get_pixels l (handle self) (backend w)),
                 trace = trace w @ [Call_get_pixels (handle self) q]\<rparr>) \<and>
             WIDTH = 160 \<and> HEIGHT = 144 \<and> count arr = WIDTH * HEIGHT \<and>
             count arr * itemsize arr = 92160 \<and>
             length (ndarray_tolist l b arr) = 23040 \<and>
             (\<forall>i. i < 23040 \<longrightarrow>
                ndarray_item l b arr i = Inr (sint (peek32 l b q i)) \<and>
                ndarray_tolist l b arr ! i = sint (peek32 l b q i)) \<and>
             (\<forall>i. 23040 \<le> i \<longrightarrow> ndarray_item l b arr i = Inl IndexError)) \<and>
         (instances (backend v) (handle self) = Some j \<longrightarrow>
            (let arr = \<lparr>data = handle self, count = 23040, itemsize = 4, writeable = True\<rparr>;
                 vn = snd (snd (run_frames (spec_lib emu) n self v));
                 m = (advance emu (latch j) ^^ n) (machine j);
                 b' = backend (snd (snd (Environment_get_pixels (spec_lib emu) self vn)))
             in fst (Environment_get_pixels (spec_lib emu) self vn) = Inr arr \<and>
                b' = backend vn \<and>
                (\<forall>k. k < WIDTH * HEIGHT \<longrightarrow>
                   ndarray_item (spec_lib emu) b' arr k = Inr (sint (pixel_of emu m k)) \<and>
                   k mod WIDTH < WIDTH \<and> k div WIDTH < HEIGHT \<and>
                   pixel_of emu m k = pixel_at emu m (k mod WIDTH) (k div WIDTH)) \<and>
                (\<forall>x y. x < WIDTH \<and> y < HEIGHT \<longrightarrow>
                   y * WIDTH + x < WIDTH * HEIGHT \<and>
                   ndarray_item (spec_lib emu) b' arr (y * WIDTH + x) =
                     Inr (sint (pixel_at emu m x y)))))"
proof (intro conjI impI)
  show "let q = fst (get_pixels l (handle self) (backend w));
              arr = \<lparr>data = q, count = 23040, itemsize = 4, writeable = True\<rparr>
          in Environment_get_pixels l self w =
               (Inr arr, self,
                \<lparr>backend = snd (get_pixels l (handle self) (backend w)),
                 trace = trace w @ [Call_get_pixels (handle self) q]\<rparr>) \<and>
             WIDTH = 160 \<and> HEIGHT = 144 \<and> count arr = WIDTH * HEIGHT \<and>
             count arr * itemsize arr = 92160 \<and>
             length (ndarray_tolist l b arr) = 23040 \<and>
             (\<forall>i. i < 23040 \<longrightarrow>
                ndarray_item l b arr i = Inr (sint (peek32 l b q i)) \<and>
                ndarray_tolist l b arr ! i = sint (peek32 l b q i)) \<and>
             (\<forall>i. 23040 \<le> i \<longrightarrow> ndarray_item l b arr i = Inl IndexError)"
    using assms
    by (simp add: get_pixels_live WIDTH_def HEIGHT_def ndarray_tolist_def ndarray_item_def Let_def)
next
  assume "instances (backend v) (handle self) = Some j"
  then show "let arr = \<lparr>data = handle self, count = 23040, itemsize = 4, writeable = True\<rparr>;
                 vn = snd (snd (run_frames (spec_lib emu) n self v));
                 m = (advance emu (latch j) ^^ n) (machine j);
                 b' = backend (snd (snd (Environment_get_pixels (spec_lib emu) self vn)))
             in fst (Environment_get_pixels (spec_lib emu) self vn) = Inr arr \<and>
                b' = backend vn \<and>
                (\<forall>k. k < WIDTH * HEIGHT \<longrightarrow>
                   ndarray_item (spec_lib emu) b' arr k = Inr (sint (pixel_of emu m k)) \<and>
                   k mod WIDTH < WIDTH \<and> k div WIDTH < HEIGHT \<and>
                   pixel_of emu m k = pixel_at emu m (k mod WIDTH) (k div WIDTH)) \<and>
                (\<forall>x y. x < WIDTH \<and> y < HEIGHT \<longrightarrow>
                   y * WIDTH + x < WIDTH * HEIGHT \<and>
                   ndarray_item (spec_lib emu) b' arr (y * WIDTH + x) =
                     Inr (sint (pixel_at emu m x y)))"
    by (rule spec_view_after_frames [OF assms])
qed


theorem get_pixels_view_witness:
  "live toy_session \<and>
   Environment_get_pixels (spec_lib toy) toy_session toy_live_world =
     (Inr \<lparr>data = 1, count = 23040, itemsize = 4, writeable = True\<rparr>, toy_session,
      \<lparr>backend = backend toy_live_world,
       trace = trace toy_live_world @ [Call_get_pixels 1 1]\<rparr>) \<and>
   length (ndarray_tolist (spec_lib toy) (backend toy_live_world)
             \<lparr>data = 1, count = 23040, itemsize = 4, writeable = True\<rparr>) = 23040 \<and>
   instances (backend toy_live_world) (handle toy_session) =
     Some \<lparr>machine = 0, latch = (\<lambda>k. False), running = False, frames = 0\<rparr> \<and>
   3 < WIDTH \<and> 1 < HEIGHT \<and>
   ndarray_item (spec_lib toy)
     (backend (snd (snd (run_frames (spec_lib toy) 2 toy_session toy_live_world))))
     \<lparr>data = 1, count = 23040, itemsize = 4, writeable = True\<rparr> (1 * WIDTH + 3) =
     Inr (- 16777214)"
proof -
  have i: "instances (backend toy_live_world) (handle toy_session) =
     Some \<lparr>machine = 0, latch = (\<lambda>k. False), running = False, frames = 0\<rparr>"
    by (simp only: toy_session_handle toy_instance)
  note g = get_pixels_view [OF toy_session_live, of "spec_lib toy" toy_live_world
      "backend toy_live_world" toy_live_world
      "\<lparr>machine = 0, latch = (\<lambda>k. False), running = False, frames = 0\<rparr>" toy 2]
  note t = g [THEN conjunct1, unfolded toy_session_handle toy_pixels_ptr Let_def fst_conv snd_conv]
  from t have a: "Environment_get_pixels (spec_lib toy) toy_session toy_live_world =
     (Inr \<lparr>data = 1, count = 23040, itemsize = 4, writeable = True\<rparr>, toy_session,
      \<lparr>backend = backend toy_live_world,
       trace = trace toy_live_world @ [Call_get_pixels 1 1]\<rparr>)"
    by (rule conjunct1)
  from t have b: "length (ndarray_tolist (spec_lib toy) (backend toy_live_world)
             \<lparr>data = 1, count = 23040, itemsize = 4, writeable = True\<rparr>) = 23040"
    by blast
  have x: "3 < WIDTH" and y: "1 < HEIGHT"
    by (simp_all add: WIDTH_def HEIGHT_def)
  note u = g [THEN conjunct2, THEN mp, OF i, unfolded Let_def toy_session_handle
      inst.select_convs]
  from u have e: "backend (snd (snd (Environment_get_pixels (spec_lib toy) toy_session
        (snd (snd (run_frames (spec_lib toy) 2 toy_session toy_live_world)))))) =
      backend (snd (snd (run_frames (spec_lib toy) 2 toy_session toy_live_world)))"
    by blast
  from u x y have "ndarray_item (spec_lib toy)
      (backend (snd (snd (Environment_get_pixels (spec_lib toy) toy_session
        (snd (snd (run_frames (spec_lib toy) 2 toy_session toy_live_world)))))))
      \<lparr>data = 1, count = 23040, itemsize = 4, writeable = True\<rparr> (1 * WIDTH + 3) =
      Inr (sint (pixel_at toy ((advance toy (\<lambda>k. False) ^^ 2) 0) 3 1))"
    by blast
  then have c: "ndarray_item (spec_lib toy)
     (backend (snd (snd (run_frames (spec_lib toy) 2 toy_session toy_live_world))))
     \<lparr>data = 1, count = 23040, itemsize = 4, writeable = True\<rparr> (1 * WIDTH + 3) =
     Inr (- 16777214)"
    by (simp only: e toy_frame_2)
  from toy_session_live a b i x y c show ?thesis
    by (intro conjI)
qed

text \<open>
  C2 as stated asks for a read-only view. The array that \<^verbatim>\<open>get_pixels\<close> returns on
  the toy backend has its \<^verbatim>\<open>writeable\<close> flag set: it is not the read-only array.
\<close>

theorem get_pixels_writable_counterexample:
  "fst (Environment_get_pixels (spec_lib toy) toy_session toy_live_world) =
     Inr \<lparr>data = 1, count = 23040, itemsize = 4, writeable = True\<rparr> \<and>
   fst (Environment_get_pixels (spec_lib toy) toy_session toy_live_world) \<noteq>
     Inr \<lparr>data = 1, count = 23040, itemsize = 4, writeable = False\<rparr>"
  by (simp add: get_pixels_live toy_session_live toy_session_handle spec_lib_def)

text \<open>
  C10: on a live session the items of the array that \<^verbatim>\<open>get_pixels\<close> returns are
  read as \<^verbatim>\<open>int32\<close>, while the backend's buffer holds \<^verbatim>\<open>uint32_t\<close> cells: for
  every index below \<open>WIDTH * HEIGHT\<close>, a cell whose unsigned value is at least \<open>2^31\<close>
  is returned as that value minus \<open>2^32\<close> (a negative number), and any other cell as its
  unsigned value.
\<close>

theorem get_pixels_signed:
  assumes "live self" and "i < WIDTH * HEIGHT"
  shows "let arr = \<lparr>data = fst (get_pixels l (handle self) (backend w)), count = 23040,
                    itemsize = 4, writeable = True\<rparr>;
             px = peek32 l b (data arr) i
         in fst (Environment_get_pixels l self w) = Inr arr \<and>
            ndarray_item l b arr i =
              Inr (if 2 ^ 31 \<le> unat px then int (unat px) - 2 ^ 32 else int (unat px)) \<and>
            ndarray_tolist l b arr ! i =
              (if 2 ^ 31 \<le> unat px then int (unat px) - 2 ^ 32 else int (unat px))"
proof -
  define q where "q = fst (get_pixels l (handle self) (backend w))"
  define arr where "arr = \<lparr>data = q, count = 23040, itemsize = 4, writeable = True\<rparr>"
  have i: "i < count arr"
    using assms(2) by (simp add: WIDTH_def HEIGHT_def arr_def)
  have d: "data arr = q"
    by (simp add: arr_def)
  have a: "fst (Environment_get_pixels l self w) = Inr arr"
    using assms(1) by (simp add: get_pixels_live q_def arr_def)
  have b: "ndarray_item l b arr i = Inr (sint (peek32 l b q i))"
    using i by (simp add: ndarray_item_def d)
  have c: "ndarray_tolist l b arr ! i = sint (peek32 l b q i)"
    using i by (simp add: ndarray_tolist_def d)
  from a b c show ?thesis
    unfolding Let_def arr_def [symmetric] q_def [symmetric] d
    by (simp only: sint32_unat [symmetric] simp_thms)
qed

theorem get_pixels_signed_witness:
  "live toy_session \<and> 5 < WIDTH * HEIGHT \<and>
   unat (peek32 (spec_lib toy) (backend toy_live_world) 1 5) = 4278190080 \<and>
   ndarray_item (spec_lib toy) (backend toy_live_world)
     \<lparr>data = 1, count = 23040, itemsize = 4, writeable = True\<rparr> 5 = Inr (- 16777216)"
proof -
  have five: "5 < WIDTH * HEIGHT"
    by (simp add: WIDTH_def HEIGHT_def)
  note t = get_pixels_signed [OF toy_session_live five, of "spec_lib toy" toy_live_world
      "backend toy_live_world", unfolded toy_session_handle toy_pixels_ptr Let_def fst_conv
      ndarray.select_convs toy_pixel]
  have u: "unat (peek32 (spec_lib toy) (backend toy_live_world) 1 5) = 4278190080"
    by (simp only: toy_pixel) simp
  from t have "ndarray_item (spec_lib toy) (backend toy_live_world)
     \<lparr>data = 1, count = 23040, itemsize = 4, writeable = True\<rparr> 5 =
     Inr (if 2 ^ 31 \<le> unat (0xFF000000 :: 32 word) then int (unat (0xFF000000 :: 32 word)) - 2 ^ 32
          else int (unat (0xFF000000 :: 32 word)))"
    by blast
  then have v: "ndarray_item (spec_lib toy) (backend toy_live_world)
     \<lparr>data = 1, count = 23040, itemsize = 4, writeable = True\<rparr> 5 = Inr (- 16777216)"
    by simp
  from toy_session_live five u v show ?thesis
    by (intro conjI)
qed

subsection \<open>Construction that fails\<close>

lemma outstanding_append: "outstanding (xs @ ys) hs = outstanding ys (outstanding xs hs)"
  by (induction xs hs rule: outstanding.induct) simp_all

lemma outstanding_null_calls:
  "outstanding (replicate n (Call_initialize_environment path NULL)) hs = hs"
  by (induction n) simp_all

lemma no_destroy_null_calls:
  "filter is_destroy (replicate n (Call_initialize_environment path NULL)) = []"
  by (induction n) simp_all

lemma init_null:
  assumes "encode_utf8 rom_path = Inr path"
    and "fst (initialize_environment l path (backend w)) = NULL"
  shows "Environment_init l rom_path self w =
           (Inl (Exception init_failed_message), self\<lparr>obj := CData NULL\<rparr>,
            \<lparr>backend = snd (initialize_environment l path (backend w)),
             trace = trace w @ [Call_initialize_environment path NULL]\<rparr>)"
  using assms
  by (simp add: Environment_init_def ffi_initialize_environment_def split_beta)

lemma del_null: "Environment_del l \<lparr>obj = CData NULL\<rparr> w = (Inr (), \<lparr>obj = PyNone\<rparr>, w)"
  by (simp add: Environment_del_def)

lemma new_null:
  assumes "encode_utf8 rom_path = Inr path"
    and "fst (initialize_environment l path (backend w)) = NULL"
  shows "Environment_new l rom_path w =
           (Inl (Exception init_failed_message),
            \<lparr>backend = snd (initialize_environment l path (backend w)),
             trace = trace w @ [Call_initialize_environment path NULL]\<rparr>)"
  by (simp add: Environment_new_def init_null [OF assms] del_null)

lemma construct_times_null:
  assumes "encode_utf8 rom_path = Inr path"
    and "\<forall>b. fst (initialize_environment l path b) = NULL"
  shows "construct_times l rom_path n w =
           (replicate n (Inl (Exception init_failed_message)),
            \<lparr>backend = ((\<lambda>b. snd (initialize_environment l path b)) ^^ n) (backend w),
             trace = trace w @ replicate n (Call_initialize_environment path NULL)\<rparr>)"
proof (induction n arbitrary: w)
  case 0
  then show ?case by simp
next
  case (Suc n)
  have "fst (initialize_environment l path (backend w)) = NULL"
    using assms(2) by simp
  then show ?case
    by (simp add: new_null [OF assms(1)] Suc funpow_Suc_right replicate_app_Cons_same
        del: funpow.simps)
qed

lemma toy_empty_path_null: "fst (initialize_environment (spec_lib toy) [] b) = NULL"
  by (simp add: spec_lib_def toy_def)

lemma toy_empty_path_state: "snd (initialize_environment (spec_lib toy) [] b) = b"
  by (simp add: spec_lib_def toy_def)

text \<open>
  C1: when the backend's \<^verbatim>\<open>initialize_environment\<close> returns \<^verbatim>\<open>NULL\<close> for the
  encoded path, \<^verbatim>\<open>__init__\<close> raises the initialisation error (the
  \<^verbatim>\<open>Exception\<close> with the message of the source) after exactly one call of the
  backend; the object left behind holds the null handle and is not live; its
  \<^verbatim>\<open>__del__\<close> makes no call of the backend, so \<^verbatim>\<open>destroy_environment\<close> is not
  called on the null handle; and the handles left allocated are those from before. When
  the backend returns \<^verbatim>\<open>NULL\<close> for the path in every state, \<open>n\<close> constructions in a
  row all raise, make \<open>n\<close> calls of \<^verbatim>\<open>initialize_environment\<close> and no other, and leave
  the allocated handles as they were.
\<close>

theorem failed_construction_retains_nothing:
  assumes "encode_utf8 rom_path = Inr path"
  shows "(fst (initialize_environment l path (backend w)) = NULL \<longrightarrow>
           (let w1 = \<lparr>backend = snd (initialize_environment l path (backend w)),
                      trace = trace w @ [Call_initialize_environment path NULL]\<rparr>
            in Environment_init l rom_path \<lparr>obj = Unset\<rparr> w =
                 (Inl (Exception init_failed_message), \<lparr>obj = CData NULL\<rparr>, w1) \<and>
               \<not> live \<lparr>obj = CData NULL\<rparr> \<and>
               Environment_del l \<lparr>obj = CData NULL\<rparr> w1 = (Inr (), \<lparr>obj = PyNone\<rparr>, w1) \<and>
               Environment_new l rom_path w = (Inl (Exception init_failed_message), w1) \<and>
               outstanding (trace w1) hs = outstanding (trace w) hs \<and>
               filter is_destroy (trace w1) = filter is_destroy (trace w))) \<and>
         ((\<forall>b. fst (initialize_environment l path b) = NULL) \<longrightarrow>
           (let (rs, w') = construct_times l rom_path n w
            in rs = replicate n (Inl (Exception init_failed_message)) \<and>
               trace w' = trace w @ replicate n (Call_initialize_environment path NULL) \<and>
               outstanding (trace w') hs = outstanding (trace w) hs \<and>
               filter is_destroy (trace w') = filter is_destroy (trace w)))"
proof (intro conjI impI)
  assume n: "fst (initialize_environment l path (backend w)) = NULL"
  show "let w1 = \<lparr>backend = snd (initialize_environment l path (backend w)),
                      trace = trace w @ [Call_initialize_environment path NULL]\<rparr>
            in Environment_init l rom_path \<lparr>obj = Unset\<rparr> w =
                 (Inl (Exception init_failed_message), \<lparr>obj = CData NULL\<rparr>, w1) \<and>
               \<not> live \<lparr>obj = CData NULL\<rparr> \<and>
               Environment_del l \<lparr>obj = CData NULL\<rparr> w1 = (Inr (), \<lparr>obj = PyNone\<rparr>, w1) \<and>
               Environment_new l rom_path w = (Inl (Exception init_failed_message), w1) \<and>
               outstanding (trace w1) hs = outstanding (trace w) hs \<and>
               filter is_destroy (trace w1) = filter is_destroy (trace w)"
    by (simp add: Let_def init_null [OF assms n] new_null [OF assms n] del_null live_def
        outstanding_append)
next
  assume a: "\<forall>b. fst (initialize_environment l path b) = NULL"
  show "let (rs, w') = construct_times l rom_path n w
            in rs = replicate n (Inl (Exception init_failed_message)) \<and>
               trace w' = trace w @ replicate n (Call_initialize_environment path NULL) \<and>
               outstanding (trace w') hs = outstanding (trace w) hs \<and>
               filter is_destroy (trace w') = filter is_destroy (trace w)"
    by (simp add: construct_times_null [OF assms a] outstanding_append outstanding_null_calls
        no_destroy_null_calls)
qed

theorem failed_construction_retains_nothing_witness:
  "encode_utf8 [] = Inr [] \<and>
   (\<forall>b. fst (initialize_environment (spec_lib toy) [] b) = NULL) \<and>
   Environment_new (spec_lib toy) [] toy_world =
     (Inl (Exception init_failed_message),
      \<lparr>backend = spec_empty, trace = [Call_initialize_environment [] NULL]\<rparr>) \<and>
   fst (construct_times (spec_lib toy) [] 3 toy_world) =
     [Inl (Exception init_failed_message), Inl (Exception init_failed_message),
      Inl (Exception init_failed_message)] \<and>
   trace (snd (construct_times (spec_lib toy) [] 3 toy_world)) =
     [Call_initialize_environment [] NULL, Call_initialize_environment [] NULL,
      Call_initialize_environment [] NULL] \<and>
   outstanding (trace (snd (construct_times (spec_lib toy) [] 3 toy_world))) [] = []"
proof -
  have e: "encode_utf8 [] = Inr []"
    by simp
  have a: "\<forall>b. fst (initialize_environment (spec_lib toy) [] b) = NULL"
    by (simp add: toy_empty_path_null)
  note t = failed_construction_retains_nothing [OF e, of "spec_lib toy" toy_world "[]" 3]
  from t a toy_empty_path_null [of "backend toy_world"]
  have n: "Environment_new (spec_lib toy) [] toy_world =
     (Inl (Exception init_failed_message),
      \<lparr>backend = spec_empty, trace = [Call_initialize_environment [] NULL]\<rparr>)"
    by (simp add: Let_def toy_empty_path_state toy_world_def)
  from t a have c: "fst (construct_times (spec_lib toy) [] 3 toy_world) =
     [Inl (Exception init_failed_message), Inl (Exception init_failed_message),
      Inl (Exception init_failed_message)] \<and>
   trace (snd (construct_times (spec_lib toy) [] 3 toy_world)) =
     [Call_initialize_environment [] NULL, Call_initialize_environment [] NULL,
      Call_initialize_environment [] NULL] \<and>
   outstanding (trace (snd (construct_times (spec_lib toy) [] 3 toy_world))) [] = []"
    by (simp add: split_beta toy_world_def eval_nat_numeral)
  from e a n c show ?thesis
    by (intro conjI) simp_all
qed

subsection \<open>The backend of the spec\<close>

lemma spec_set_key_state_Some:
  "instances b h = Some i \<Longrightarrow>
   set_key_state (spec_lib emu) h key pressed b =
     b\<lparr>instances := (instances b)(h \<mapsto> i\<lparr>latch := (latch i)(key := pressed)\<rparr>)\<rparr>"
  by (simp add: spec_lib_def spec_update_def)

lemma spec_set_key_state_None:
  "instances b h = None \<Longrightarrow> set_key_state (spec_lib emu) h key pressed b = b"
  by (simp add: spec_lib_def spec_update_def)

lemma spec_set_key_state_idem:
  "set_key_state (spec_lib emu) h key pressed (set_key_state (spec_lib emu) h key pressed b) =
   set_key_state (spec_lib emu) h key pressed b"
proof (cases "instances b h")
  case None
  then show ?thesis
    by (simp add: spec_set_key_state_None)
next
  case (Some i)
  then show ?thesis
    by (simp add: spec_lib_def spec_update_def)
qed

lemma spec_run_frame_not_running:
  "\<not> is_running (spec_lib emu) h b \<Longrightarrow> \<not> is_running (spec_lib emu) h (run_frame (spec_lib emu) h b)"
  by (simp add: spec_lib_def spec_update_def split: option.splits)

lemma spec_set_key_state_running:
  "is_running (spec_lib emu) h (set_key_state (spec_lib emu) h key pressed b) =
   is_running (spec_lib emu) h b"
  by (simp add: spec_lib_def spec_update_def split: option.splits)

lemma spec_get_pixels_state: "snd (get_pixels (spec_lib emu) h b) = b"
  by (simp add: spec_lib_def)

lemma spec_initialize_Some:
  "load_rom emu path = Some m \<Longrightarrow>
   initialize_environment (spec_lib emu) path b =
     (Suc (allocated b),
      \<lparr>instances = (instances b)(Suc (allocated b) \<mapsto>
          \<lparr>machine = m, latch = (\<lambda>k. False), running = False, frames = 0\<rparr>),
       allocated = Suc (allocated b)\<rparr>)"
  by (simp add: spec_lib_def)

subsection \<open>Scripts\<close>

lemma perform_backend_only:
  assumes "backend w = backend v"
  shows "fst (perform l r s w) = fst (perform l r s v) \<and>
         fst (snd (perform l r s w)) = fst (snd (perform l r s v)) \<and>
         backend (snd (snd (perform l r s w))) = backend (snd (snd (perform l r s v)))"
proof (cases "obj s")
  case Unset
  then show ?thesis
    using assms
    by (cases r)
      (simp_all add: Environment_start_episode_def Environment_run_frame_def
        Environment_is_running_def Environment_set_key_state_def Environment_get_score_def
        Environment_get_pixels_def)
next
  case PyNone
  then show ?thesis
    using assms
    by (cases r)
      (simp_all add: Environment_start_episode_def Environment_run_frame_def
        Environment_is_running_def Environment_set_key_state_def Environment_get_score_def
        Environment_get_pixels_def)
next
  case (CData p)
  then show ?thesis
    using assms
    by (cases r)
      (simp_all add: Environment_start_episode_def Environment_run_frame_def
        Environment_is_running_def Environment_set_key_state_def Environment_get_score_def
        Environment_get_pixels_def ffi_start_episode_def ffi_run_frame_def ffi_is_running_def
        ffi_set_key_state_def ffi_get_score_def ffi_get_pixels_def split_beta Let_def
        numpy_frombuffer_int32_def ffi_buffer_def WIDTH_def HEIGHT_def)
qed

lemma perform_all_backend_only:
  "backend w = backend v \<Longrightarrow>
   fst (perform_all l rs s w) = fst (perform_all l rs s v) \<and>
   fst (snd (perform_all l rs s w)) = fst (snd (perform_all l rs s v)) \<and>
   backend (snd (snd (perform_all l rs s w))) = backend (snd (snd (perform_all l rs s v)))"
proof (induction rs arbitrary: s w v)
  case Nil
  then show ?case by simp
next
  case (Cons r rs)
  note p = perform_backend_only [OF Cons.prems, of l r s]
  from p have b: "backend (snd (snd (perform l r s w))) = backend (snd (snd (perform l r s v)))"
    by simp
  note ih = Cons.IH [OF b, of "fst (snd (perform l r s w))"]
  from p ih show ?case
    by (simp add: split_beta)
qed


lemma toy_set_once_eq:
  "toy_set_once =
     \<lparr>backend = \<lparr>instances = [1 \<mapsto> \<lparr>machine = 0, latch = (\<lambda>k. k = Start), running = False,
                                      frames = 0\<rparr>],
                  allocated = 1\<rparr>,
      trace = [Call_initialize_environment [116, 46, 103, 98] 1, Call_set_key_state 1 Start True]\<rparr>"
proof -
  have l: "(\<lambda>k. False)(Start := True) = (\<lambda>k. k = Start)"
    by (rule ext) simp
  show ?thesis
    by (simp add: toy_set_once_def set_key_state_live toy_session_live toy_session_handle
        toy_live_world_eq spec_lib_def spec_update_def l)
qed

lemma toy_script_once:
  "fst (perform_all (spec_lib toy) toy_script toy_session toy_set_once) =
     [Returned_None, Returned_None, Returned_int 2, Returned_bool True]"
  by (simp add: toy_script_def toy_set_once_eq start_episode_live run_frame_live get_score_live
      is_running_live toy_session_live toy_session_handle spec_lib_def spec_update_def toy_def)

subsection \<open>The input latch\<close>

text \<open>
  C5: on a live session, for every button and every pressed state,
  \<^verbatim>\<open>set_key_state\<close> raises nothing, leaves the session as it is and makes exactly one
  call of the backend, the \<^verbatim>\<open>set_key_state\<close> of that button and state, so no frame
  advance. On the backend of the spec that call overwrites the latch of the session's
  instance at that button only: the other buttons, the machine, the running flag, the
  frame count, the other instances and the allocation count stay as they were.
\<close>

theorem set_key_state_overwrites_one_button:
  assumes "live self"
  shows "Environment_set_key_state l key pressed self w =
           (Inr (), self,
            \<lparr>backend = set_key_state l (handle self) key pressed (backend w),
             trace = trace w @ [Call_set_key_state (handle self) key pressed]\<rparr>) \<and>
         (instances (backend v) (handle self) = Some i \<longrightarrow>
            (let b' = backend (snd (snd (Environment_set_key_state (spec_lib emu) key pressed self v)));
                 i' = i\<lparr>latch := (latch i)(key := pressed)\<rparr>
             in instances b' (handle self) = Some i' \<and>
                latch i' key = pressed \<and>
                (\<forall>k. k \<noteq> key \<longrightarrow> latch i' k = latch i k) \<and>
                machine i' = machine i \<and> running i' = running i \<and> frames i' = frames i \<and>
                (\<forall>h. h \<noteq> handle self \<longrightarrow> instances b' h = instances (backend v) h) \<and>
                allocated b' = allocated (backend v)))"
  using assms by (simp add: set_key_state_live spec_set_key_state_Some Let_def)

theorem set_key_state_overwrites_one_button_witness:
  "live toy_session \<and>
   instances (backend toy_live_world) (handle toy_session) =
     Some \<lparr>machine = 0, latch = (\<lambda>k. False), running = False, frames = 0\<rparr> \<and>
   fst (Environment_set_key_state (spec_lib toy) Start True toy_session toy_live_world) = Inr () \<and>
   trace (snd (snd (Environment_set_key_state (spec_lib toy) Start True toy_session toy_live_world))) =
     trace toy_live_world @ [Call_set_key_state 1 Start True] \<and>
   instances (backend (snd (snd (Environment_set_key_state (spec_lib toy) Start True toy_session
       toy_live_world)))) 1 =
     Some \<lparr>machine = 0, latch = (\<lambda>k. k = Start), running = False, frames = 0\<rparr>"
proof -
  have i: "instances (backend toy_live_world) (handle toy_session) =
     Some \<lparr>machine = 0, latch = (\<lambda>k. False), running = False, frames = 0\<rparr>"
    by (simp only: toy_session_handle toy_instance)
  note t = set_key_state_overwrites_one_button [OF toy_session_live, of "spec_lib toy" Start True
      toy_live_world toy_live_world
      "\<lparr>machine = 0, latch = (\<lambda>k. False), running = False, frames = 0\<rparr>" toy]
  from t have a: "fst (Environment_set_key_state (spec_lib toy) Start True toy_session toy_live_world) = Inr ()"
    by simp
  from t have b: "trace (snd (snd (Environment_set_key_state (spec_lib toy) Start True toy_session
      toy_live_world))) = trace toy_live_world @ [Call_set_key_state 1 Start True]"
    by (simp add: toy_session_handle)
  have l: "(\<lambda>k. False)(Start := True) = (\<lambda>k. k = Start)"
    by (rule ext) simp
  note u = t [THEN conjunct2, THEN mp, OF i, unfolded Let_def, THEN conjunct1]
  from u have c: "instances (backend (snd (snd (Environment_set_key_state (spec_lib toy) Start True
      toy_session toy_live_world)))) (handle toy_session) =
     Some \<lparr>machine = 0, latch = (\<lambda>k. k = Start), running = False, frames = 0\<rparr>"
    by (simp add: l)
  from toy_session_live i a b c [unfolded toy_session_handle] show ?thesis
    by (intro conjI)
qed

text \<open>
  C7: on a live session of the backend of the spec, setting a button to the same state
  twice in a row leaves the backend in the state that setting it once leaves, and the
  session unchanged; so every script of calls that follows (frame advances, scores,
  running states, pixels) gives the same observations and the same backend state after
  two settings as after one.
\<close>

theorem set_key_state_twice_same:
  assumes "live self"
  shows "let l = spec_lib emu;
             (r1, s1, w1) = Environment_set_key_state l key pressed self w;
             (r2, s2, w2) = Environment_set_key_state l key pressed s1 w1
         in r1 = Inr () \<and> r2 = Inr () \<and> s1 = self \<and> s2 = self \<and>
            backend w2 = backend w1 \<and>
            (\<forall>rs. fst (perform_all l rs s2 w2) = fst (perform_all l rs s1 w1) \<and>
                  backend (snd (snd (perform_all l rs s2 w2))) =
                    backend (snd (snd (perform_all l rs s1 w1))))"
proof -
  define w1 where "w1 = snd (snd (Environment_set_key_state (spec_lib emu) key pressed self w))"
  define w2 where "w2 = snd (snd (Environment_set_key_state (spec_lib emu) key pressed self w1))"
  have one: "Environment_set_key_state (spec_lib emu) key pressed self w = (Inr (), self, w1)"
    using assms by (simp add: w1_def set_key_state_live)
  have two: "Environment_set_key_state (spec_lib emu) key pressed self w1 = (Inr (), self, w2)"
    using assms by (simp add: w2_def set_key_state_live)
  have b: "backend w2 = backend w1"
    using assms by (simp add: w1_def w2_def set_key_state_live spec_set_key_state_idem)
  have "fst (perform_all (spec_lib emu) rs self w2) = fst (perform_all (spec_lib emu) rs self w1) \<and>
        backend (snd (snd (perform_all (spec_lib emu) rs self w2))) =
          backend (snd (snd (perform_all (spec_lib emu) rs self w1)))" for rs
    using perform_all_backend_only [OF b, of "spec_lib emu" rs self] by simp
  then show ?thesis
    by (simp add: Let_def one two b)
qed


theorem set_key_state_twice_same_witness:
  "live toy_session \<and>
   backend toy_set_twice = backend toy_set_once \<and>
   fst (perform_all (spec_lib toy) toy_script toy_session toy_set_twice) =
     [Returned_None, Returned_None, Returned_int 2, Returned_bool True] \<and>
   fst (perform_all (spec_lib toy) toy_script toy_session toy_set_once) =
     [Returned_None, Returned_None, Returned_int 2, Returned_bool True]"
proof -
  have one: "Environment_set_key_state (spec_lib toy) Start True toy_session toy_live_world =
      (Inr (), toy_session, toy_set_once)"
    by (simp add: toy_set_once_def set_key_state_live toy_session_live)
  have two: "Environment_set_key_state (spec_lib toy) Start True toy_session toy_set_once =
      (Inr (), toy_session, toy_set_twice)"
    by (simp add: toy_set_twice_def set_key_state_live toy_session_live)
  note t = set_key_state_twice_same [OF toy_session_live, of toy Start True toy_live_world,
      unfolded Let_def one two prod.case]
  from t have b: "backend toy_set_twice = backend toy_set_once"
    by blast
  from t have "fst (perform_all (spec_lib toy) toy_script toy_session toy_set_twice) =
      fst (perform_all (spec_lib toy) toy_script toy_session toy_set_once)"
    by blast
  then have c: "fst (perform_all (spec_lib toy) toy_script toy_session toy_set_twice) =
     [Returned_None, Returned_None, Returned_int 2, Returned_bool True]"
    by (simp only: toy_script_once)
  from toy_session_live b c toy_script_once show ?thesis
    by (intro conjI)
qed

subsection \<open>Construction that succeeds\<close>

lemma new_valid:
  assumes "encode_utf8 rom_path = Inr path"
    and "fst (initialize_environment l path (backend w)) \<noteq> NULL"
  shows "Environment_new l rom_path w =
           (Inr \<lparr>obj = CData (fst (initialize_environment l path (backend w)))\<rparr>,
            \<lparr>backend = snd (initialize_environment l path (backend w)),
             trace = trace w @ [Call_initialize_environment path
                                  (fst (initialize_environment l path (backend w)))]\<rparr>)"
  using assms
  by (simp add: Environment_new_def Environment_init_def ffi_initialize_environment_def split_beta)

lemma perform_keeps_not_running:
  assumes "live self" and "\<not> is_start r"
    and "\<not> is_running (spec_lib emu) (handle self) (backend w)"
  shows "fst (perform (spec_lib emu) r self w) \<noteq> Returned_bool True \<and>
         fst (snd (perform (spec_lib emu) r self w)) = self \<and>
         \<not> is_running (spec_lib emu) (handle self)
             (backend (snd (snd (perform (spec_lib emu) r self w))))"
  using assms
  by (cases r)
    (simp_all add: run_frame_live is_running_live set_key_state_live get_score_live
      get_pixels_live spec_run_frame_not_running spec_set_key_state_running
      spec_get_pixels_state)

lemma perform_all_keeps_not_running:
  assumes "live self"
  shows "list_all (\<lambda>r. \<not> is_start r) rs \<Longrightarrow>
         \<not> is_running (spec_lib emu) (handle self) (backend w) \<Longrightarrow>
         Returned_bool True \<notin> set (fst (perform_all (spec_lib emu) rs self w)) \<and>
         fst (snd (perform_all (spec_lib emu) rs self w)) = self \<and>
         \<not> is_running (spec_lib emu) (handle self)
             (backend (snd (snd (perform_all (spec_lib emu) rs self w))))"
proof (induction rs arbitrary: w)
  case Nil
  then show ?case by simp
next
  case (Cons r rs)
  from Cons.prems have r: "\<not> is_start r" and rs: "list_all (\<lambda>r. \<not> is_start r) rs"
    by simp_all
  note p = perform_keeps_not_running [OF assms r Cons.prems(2)]
  note ih = Cons.IH [OF rs p [THEN conjunct2, THEN conjunct2]]
  from p ih show ?case
    by (auto simp add: split_beta)
qed

lemma toy_idle_script_observed:
  "fst (perform_all (spec_lib toy) toy_idle_script toy_session toy_live_world) =
     [Returned_bool False, Returned_None, Returned_None, Returned_int 1, Returned_bool False]"
  by (simp add: toy_idle_script_def toy_live_world_eq run_frame_live get_score_live
      is_running_live set_key_state_live toy_session_live toy_session_handle spec_lib_def
      spec_update_def toy_def)

text \<open>
  C4: when the backend's \<^verbatim>\<open>initialize_environment\<close> returns a handle other than
  \<^verbatim>\<open>NULL\<close> for the encoded path, construction gives a live session on that handle
  after exactly one call of the backend, the call that allocates the instance, and no
  call of \<^verbatim>\<open>start_episode\<close>. On the backend of the spec, for every path whose ROM
  loads, \<^verbatim>\<open>is_running\<close> on the new session returns false, and it keeps returning
  false through every script of calls that has no \<^verbatim>\<open>start_episode\<close> in it.
\<close>

theorem construction_starts_no_episode:
  assumes "encode_utf8 rom_path = Inr path"
  shows "(fst (initialize_environment l path (backend w)) \<noteq> NULL \<longrightarrow>
           (let p = fst (initialize_environment l path (backend w))
            in Environment_new l rom_path w =
                 (Inr \<lparr>obj = CData p\<rparr>,
                  \<lparr>backend = snd (initialize_environment l path (backend w)),
                   trace = trace w @ [Call_initialize_environment path p]\<rparr>) \<and>
               live \<lparr>obj = CData p\<rparr>)) \<and>
         (load_rom emu path \<noteq> None \<longrightarrow>
           (let self = \<lparr>obj = CData (Suc (allocated (backend v)))\<rparr>;
                v' = snd (Environment_new (spec_lib emu) rom_path v)
            in fst (Environment_new (spec_lib emu) rom_path v) = Inr self \<and> live self \<and>
               trace v' = trace v @ [Call_initialize_environment path (handle self)] \<and>
               fst (Environment_is_running (spec_lib emu) self v') = Inr False \<and>
               (\<forall>rs. list_all (\<lambda>r. \<not> is_start r) rs \<longrightarrow>
                  Returned_bool True \<notin> set (fst (perform_all (spec_lib emu) rs self v')) \<and>
                  fst (Environment_is_running (spec_lib emu) self
                         (snd (snd (perform_all (spec_lib emu) rs self v')))) = Inr False)))"
proof (intro conjI impI)
  assume n: "fst (initialize_environment l path (backend w)) \<noteq> NULL"
  show "let p = fst (initialize_environment l path (backend w))
            in Environment_new l rom_path w =
                 (Inr \<lparr>obj = CData p\<rparr>,
                  \<lparr>backend = snd (initialize_environment l path (backend w)),
                   trace = trace w @ [Call_initialize_environment path p]\<rparr>) \<and>
               live \<lparr>obj = CData p\<rparr>"
    using n by (simp add: Let_def new_valid [OF assms n] live_def)
next
  assume "load_rom emu path \<noteq> None"
  then obtain m where m: "load_rom emu path = Some m"
    by blast
  define h where "h = Suc (allocated (backend v))"
  define self where "self = \<lparr>obj = CData h\<rparr>"
  define v' where "v' = snd (Environment_new (spec_lib emu) rom_path v)"
  have i: "initialize_environment (spec_lib emu) path (backend v) =
      (h, \<lparr>instances = (instances (backend v))(h \<mapsto>
              \<lparr>machine = m, latch = (\<lambda>k. False), running = False, frames = 0\<rparr>),
           allocated = h\<rparr>)"
    by (simp add: spec_initialize_Some [OF m] h_def)
  have nn: "fst (initialize_environment (spec_lib emu) path (backend v)) \<noteq> NULL"
    by (simp add: i h_def NULL_def)
  note new = new_valid [OF assms nn, unfolded i fst_conv snd_conv]
  have a: "fst (Environment_new (spec_lib emu) rom_path v) = Inr self"
    by (simp add: new self_def)
  have lv: "live self"
    by (simp add: self_def live_def h_def NULL_def)
  have hs: "handle self = h"
    by (simp add: self_def handle_def)
  have t: "trace v' = trace v @ [Call_initialize_environment path (handle self)]"
    by (simp add: v'_def new hs)
  have bv: "backend v' =
      \<lparr>instances = (instances (backend v))(h \<mapsto>
          \<lparr>machine = m, latch = (\<lambda>k. False), running = False, frames = 0\<rparr>),
       allocated = h\<rparr>"
    by (simp add: v'_def new)
  have nr: "\<not> is_running (spec_lib emu) (handle self) (backend v')"
    by (simp add: bv hs spec_lib_def)
  have q: "fst (Environment_is_running (spec_lib emu) self v') = Inr False"
    using nr by (simp add: is_running_live [OF lv])
  have s: "Returned_bool True \<notin> set (fst (perform_all (spec_lib emu) rs self v')) \<and>
           fst (Environment_is_running (spec_lib emu) self
                  (snd (snd (perform_all (spec_lib emu) rs self v')))) = Inr False"
    if "list_all (\<lambda>r. \<not> is_start r) rs" for rs
    using perform_all_keeps_not_running [OF lv that nr]
    by (simp add: is_running_live [OF lv])
  from a lv t q s
  show "let self = \<lparr>obj = CData (Suc (allocated (backend v)))\<rparr>;
                v' = snd (Environment_new (spec_lib emu) rom_path v)
            in fst (Environment_new (spec_lib emu) rom_path v) = Inr self \<and> live self \<and>
               trace v' = trace v @ [Call_initialize_environment path (handle self)] \<and>
               fst (Environment_is_running (spec_lib emu) self v') = Inr False \<and>
               (\<forall>rs. list_all (\<lambda>r. \<not> is_start r) rs \<longrightarrow>
                  Returned_bool True \<notin> set (fst (perform_all (spec_lib emu) rs self v')) \<and>
                  fst (Environment_is_running (spec_lib emu) self
                         (snd (snd (perform_all (spec_lib emu) rs self v')))) = Inr False)"
    unfolding Let_def self_def [symmetric] h_def [symmetric] v'_def [symmetric]
    by blast
qed


theorem construction_starts_no_episode_witness:
  "encode_utf8 toy_path = Inr [116, 46, 103, 98] \<and>
   load_rom toy [116, 46, 103, 98] \<noteq> None \<and>
   fst (Environment_new (spec_lib toy) toy_path toy_world) = Inr toy_session \<and>
   live toy_session \<and>
   trace toy_live_world = [Call_initialize_environment [116, 46, 103, 98] 1] \<and>
   fst (Environment_is_running (spec_lib toy) toy_session toy_live_world) = Inr False \<and>
   list_all (\<lambda>r. \<not> is_start r) toy_idle_script \<and>
   Returned_bool True \<notin>
     set (fst (perform_all (spec_lib toy) toy_idle_script toy_session toy_live_world)) \<and>
   fst (perform_all (spec_lib toy) toy_idle_script toy_session toy_live_world) =
     [Returned_bool False, Returned_None, Returned_None, Returned_int 1, Returned_bool False]"
proof -
  have lr: "load_rom toy [116, 46, 103, 98] \<noteq> None"
    by (simp add: toy_def)
  have se: "\<lparr>obj = CData (Suc (allocated (backend toy_world)))\<rparr> = toy_session"
    by (simp add: toy_session_def toy_world_def spec_empty_def)
  note t = construction_starts_no_episode [OF encode_toy_path, of "spec_lib toy" toy_world toy
      toy_world]
  note u = t [THEN conjunct2, THEN mp, OF lr, unfolded Let_def se toy_live_world_def [symmetric]]
  from u have a: "fst (Environment_new (spec_lib toy) toy_path toy_world) = Inr toy_session"
    by blast
  from u have q: "fst (Environment_is_running (spec_lib toy) toy_session toy_live_world) = Inr False"
    by blast
  have tr: "trace toy_live_world = [Call_initialize_environment [116, 46, 103, 98] 1]"
    by (simp add: toy_live_world_eq)
  have idle: "list_all (\<lambda>r. \<not> is_start r) toy_idle_script"
    by (simp add: toy_idle_script_def)
  from u idle have n: "Returned_bool True \<notin>
      set (fst (perform_all (spec_lib toy) toy_idle_script toy_session toy_live_world))"
    by blast
  from encode_toy_path lr a toy_session_live tr q idle n toy_idle_script_observed
  show ?thesis
    by (intro conjI)
qed

end
